theory Spec2Isabelle
  imports Main "HOL-Library.Word"
begin

section \<open>The ESP UART network interface (lib/WUI/espif.cpp)\<close>

text \<open>
  A shallow embedding of the ESP network-interface driver. The driver keeps its state in
  file-level statics; here they are the fields of one record that every function takes and
  returns. Calls into the hardware abstraction layer, the IP stack and the operating system
  are recorded in logs kept in the same record, and what those collaborators answer is read
  from scripts (lists consumed from the front), so that every run of the code is a run of the
  model at some script.
\<close>

subsection \<open>Data\<close>

type_synonym u8 = "8 word"
type_synonym u16 = "16 word"
type_synonym u32 = "32 word"

datatype ESPIFOperatingMode =
    ESPIF_UNINITIALIZED_MODE
  | ESPIF_WAIT_INIT
  | ESPIF_NEED_AP
  | ESPIF_CONNECTING_AP
  | ESPIF_RUNNING_MODE
  | ESPIF_SCANNING_MODE
  | ESPIF_WRONG_FW
  | ESPIF_FLASHING_ERROR_NOT_CONNECTED
  | ESPIF_FLASHING_ERROR_OTHER

text \<open>The enumerators of \<^verbatim>\<open>EspFwState\<close> that \<^verbatim>\<open>esp_fw_state\<close> returns.\<close>

datatype EspFwState =
    Ok
  | Unknown
  | NoEsp
  | NoFirmware
  | WrongVersion
  | Scanning
  | FlashingErrorNotConnected
  | FlashingErrorOther

text \<open>The enumerators of \<^verbatim>\<open>esp::MessageType\<close> that the driver transmits.\<close>

datatype MessageType =
    DEVICE_INFO_V2
  | CLIENTCONFIG_V2
  | PACKET_V2
  | SCAN_START
  | SCAN_STOP
  | SCAN_AP_GET

text \<open>
  \<^verbatim>\<open>HAL_StatusTypeDef\<close> of the STM32 HAL, and lwIP's \<^verbatim>\<open>err_t\<close>. The driver returns a HAL
  status where an \<^verbatim>\<open>err_t\<close> is expected (its own FIXME says so), which is why both are
  kept as numbers: \<^verbatim>\<open>HAL_OK = 0\<close>, \<^verbatim>\<open>HAL_ERROR = 1\<close>, \<^verbatim>\<open>HAL_BUSY = 2\<close>, \<^verbatim>\<open>HAL_TIMEOUT = 3\<close>
  and \<^verbatim>\<open>ERR_OK = 0\<close>, \<^verbatim>\<open>ERR_MEM = -1\<close>, \<^verbatim>\<open>ERR_IF = -12\<close>.
\<close>

datatype HAL_StatusTypeDef = HAL_OK | HAL_ERROR | HAL_BUSY | HAL_TIMEOUT

type_synonym err_t = int

fun hal_err :: "HAL_StatusTypeDef \<Rightarrow> err_t" where
  "hal_err HAL_OK = 0"
| "hal_err HAL_ERROR = 1"
| "hal_err HAL_BUSY = 2"
| "hal_err HAL_TIMEOUT = 3"

definition ERR_OK :: err_t where "ERR_OK = 0"
definition ERR_MEM :: err_t where "ERR_MEM = - 1"
definition ERR_IF :: err_t where "ERR_IF = - 12"

text \<open>
  A \<^verbatim>\<open>pbuf *\<close> is a chain of segments linked by \<^verbatim>\<open>next\<close>: the list of the segments'
  payloads, \<^verbatim>\<open>nullptr\<close> being the empty chain.
\<close>

type_synonym pbuf = "u8 list list"

record MessagePrelude =
  intron :: "u8 list"
  hdr_type :: MessageType
  hdr_variable_byte :: u8
  hdr_size :: u16
  data_checksum :: u32

record APInfo =
  ssid :: "u8 list"
  requires_password :: bool

text \<open>What the driver hands to \<^verbatim>\<open>HAL_UART_Transmit_DMA\<close>: the prelude or one payload segment.\<close>

datatype tx_item = TxPrelude MessagePrelude | TxSegment "u8 list"

text \<open>The calls the driver makes on the IP stack's interface.\<close>

datatype netif_call = Netif_set_link_up | Netif_set_link_down

text \<open>
  The statics of the file. \<open>uart_rx_parser\<close> is the state of the base class
  \<^verbatim>\<open>esp::RxParserBase\<close>, which the driver only resets; its type is left open.
  The last five fields are the environment: the log of transmissions with the status the HAL
  returned for each, the statuses the HAL will return next (\<^verbatim>\<open>HAL_OK\<close> once the script is
  used up), what arrives for each timed wait on the access-point queue (\<open>None\<close>: nothing
  within the timeout), the calls made on the interface, and the pulses on the reset line.
\<close>

record 'p espif_state =
  esp_operating_mode :: ESPIFOperatingMode
  associated :: bool
  init_countdown :: u8
  seen_intron :: bool
  seen_rx_packet :: bool
  esp_detected :: bool
  esp_was_ok :: bool
  tx_message :: MessagePrelude
  scan_is_running :: bool
  prescan_op_mode :: ESPIFOperatingMode
  ap_count :: u8
  ap_index :: u8
  ap_info_queue :: "APInfo option"
  uart_rx_parser :: 'p
  netif_hwaddr :: "u8 list"
  netif_hwaddr_len :: u8
  uart_tx_log :: "(tx_item \<times> HAL_StatusTypeDef) list"
  hal_script :: "HAL_StatusTypeDef list"
  ap_info_arrivals :: "APInfo option list"
  netif_calls :: "netif_call list"
  esp_rst_pulses :: nat

text \<open>
  The statics as their initialisers leave them; the default intron and the parser's initial
  state are declared outside this file and are arguments.
\<close>

definition power_on :: "u8 list \<Rightarrow> 'p \<Rightarrow> 'p espif_state" where
  "power_on default_intron parser0 =
     \<lparr> esp_operating_mode = ESPIF_UNINITIALIZED_MODE,
       associated = False,
       init_countdown = 20,
       seen_intron = False,
       seen_rx_packet = False,
       esp_detected = False,
       esp_was_ok = False,
       tx_message = \<lparr> intron = default_intron, hdr_type = DEVICE_INFO_V2,
                      hdr_variable_byte = 0, hdr_size = 0, data_checksum = 0 \<rparr>,
       scan_is_running = False,
       prescan_op_mode = ESPIF_UNINITIALIZED_MODE,
       ap_count = 0,
       ap_index = 0,
       ap_info_queue = None,
       uart_rx_parser = parser0,
       netif_hwaddr = [],
       netif_hwaddr_len = 0,
       uart_tx_log = [],
       hal_script = [],
       ap_info_arrivals = [],
       netif_calls = [],
       esp_rst_pulses = 0 \<rparr>"

subsection \<open>Mode predicates\<close>

fun is_running :: "ESPIFOperatingMode \<Rightarrow> bool" where
  "is_running ESPIF_UNINITIALIZED_MODE = False"
| "is_running ESPIF_FLASHING_ERROR_NOT_CONNECTED = False"
| "is_running ESPIF_FLASHING_ERROR_OTHER = False"
| "is_running ESPIF_WRONG_FW = False"
| "is_running ESPIF_SCANNING_MODE = False"
| "is_running ESPIF_WAIT_INIT = True"
| "is_running ESPIF_NEED_AP = True"
| "is_running ESPIF_RUNNING_MODE = True"
| "is_running ESPIF_CONNECTING_AP = True"

fun can_recieve_data :: "ESPIFOperatingMode \<Rightarrow> bool" where
  "can_recieve_data ESPIF_UNINITIALIZED_MODE = False"
| "can_recieve_data ESPIF_FLASHING_ERROR_OTHER = False"
| "can_recieve_data ESPIF_WRONG_FW = False"
| "can_recieve_data ESPIF_FLASHING_ERROR_NOT_CONNECTED = True"
| "can_recieve_data ESPIF_WAIT_INIT = True"
| "can_recieve_data ESPIF_NEED_AP = True"
| "can_recieve_data ESPIF_RUNNING_MODE = True"
| "can_recieve_data ESPIF_CONNECTING_AP = True"
| "can_recieve_data ESPIF_SCANNING_MODE = True"

subsection \<open>Firmware state\<close>

definition esp_fw_state :: "'p espif_state \<Rightarrow> EspFwState" where
  "esp_fw_state s =
     (let mode = esp_operating_mode s;
          detected = esp_detected s;
          seen_ok = esp_was_ok s
      in case mode of
           ESPIF_UNINITIALIZED_MODE \<Rightarrow> if seen_ok then Ok else Unknown
         | ESPIF_FLASHING_ERROR_NOT_CONNECTED \<Rightarrow> FlashingErrorNotConnected
         | ESPIF_FLASHING_ERROR_OTHER \<Rightarrow> FlashingErrorOther
         | ESPIF_WAIT_INIT \<Rightarrow>
             if seen_ok then Ok
             else if detected then (if init_countdown s > 0 then Unknown else NoFirmware)
             else NoEsp
         | ESPIF_NEED_AP \<Rightarrow> Ok
         | ESPIF_CONNECTING_AP \<Rightarrow> Ok
         | ESPIF_RUNNING_MODE \<Rightarrow> Ok
         | ESPIF_WRONG_FW \<Rightarrow> WrongVersion
         | ESPIF_SCANNING_MODE \<Rightarrow> Scanning)"

subsection \<open>Transmitting\<close>

text \<open>
  Three things the driver uses are declared outside this file and are arguments of the
  model: \<^verbatim>\<open>crc32_calc_ex\<close>, the byte that stands for a message type in the header, and
  the protocol version the firmware must report.
\<close>

record externs =
  crc32_calc_ex :: "u32 \<Rightarrow> u8 list \<Rightarrow> u32"
  message_type_byte :: "MessageType \<Rightarrow> u8"
  REQUIRED_PROTOCOL_VERSION :: u8

text \<open>
  The header as it lies in memory: type, variable byte, and the size in network order. The
  fields \<open>hdr_size\<close> and \<open>data_checksum\<close> hold the numbers; \<^verbatim>\<open>htons\<close> and \<^verbatim>\<open>htonl\<close> only fix
  the order of their bytes.
\<close>

definition header_bytes :: "externs \<Rightarrow> MessagePrelude \<Rightarrow> u8 list" where
  "header_bytes X msg =
     [message_type_byte X (hdr_type msg), hdr_variable_byte msg,
      ucast (drop_bit 8 (hdr_size msg)), ucast (hdr_size msg)]"

definition message_checksum :: "externs \<Rightarrow> MessagePrelude \<Rightarrow> pbuf \<Rightarrow> u32" where
  "message_checksum X msg p =
     (let crc = 0;
          crc = crc32_calc_ex X crc (intron msg);
          crc = crc32_calc_ex X crc (header_bytes X msg)
      in foldl (crc32_calc_ex X) crc p)"

text \<open>
  \<^verbatim>\<open>espif_tx_buffer\<close> starts one DMA transfer and, when the HAL accepted it, sleeps until the
  completion interrupt. Here it appends the transfer and the HAL's status (the head of the
  script) to the log. The
  handshake on the completion-signal slot that it performs with the interrupt is the subject of
  the step relation \<open>tx_step\<close> below.
\<close>

definition HAL_UART_Transmit_DMA :: "HAL_StatusTypeDef list \<Rightarrow> HAL_StatusTypeDef" where
  "HAL_UART_Transmit_DMA script = (case script of [] \<Rightarrow> HAL_OK | r # _ \<Rightarrow> r)"

definition espif_tx_buffer ::
  "tx_item \<Rightarrow> 'p espif_state \<Rightarrow> HAL_StatusTypeDef \<times> 'p espif_state" where
  "espif_tx_buffer data s =
     (let tx_result = HAL_UART_Transmit_DMA (hal_script s)
      in (tx_result,
          s\<lparr>uart_tx_log := uart_tx_log s @ [(data, tx_result)],
            hal_script := tl (hal_script s)\<rparr>))"

text \<open>The loop over the payload's segments: it stops at the first transfer the HAL refuses.\<close>

fun tx_segments ::
  "pbuf \<Rightarrow> HAL_StatusTypeDef \<Rightarrow> 'p espif_state \<Rightarrow> HAL_StatusTypeDef \<times> 'p espif_state" where
  "tx_segments [] tx_result s = (tx_result, s)"
| "tx_segments (seg # rest) tx_result s =
     (case espif_tx_buffer (TxSegment seg) s of
        (r, s') \<Rightarrow> if r \<noteq> HAL_OK then (r, s') else tx_segments rest r s')"

text \<open>
  \<^verbatim>\<open>tot_len\<close> of the head of a chain is a 16-bit field. In \<open>espif_tx_raw\<close> the lock on
  \<^verbatim>\<open>uart_write_mutex\<close>, the byte counter of the metrics and the one-tick delay before each
  segment have no counterpart: the model is sequential and untimed.
\<close>

definition tot_len :: "pbuf \<Rightarrow> u16" where
  "tot_len p = of_nat (sum_list (map length p))"

definition espif_tx_raw ::
  "externs \<Rightarrow> MessageType \<Rightarrow> u8 \<Rightarrow> pbuf \<Rightarrow> 'p espif_state \<Rightarrow> err_t \<times> 'p espif_state" where
  "espif_tx_raw X message_type message_byte p s =
     (let size = (if p \<noteq> [] then tot_len p else 0);
          m = (tx_message s)\<lparr>hdr_type := message_type, hdr_variable_byte := message_byte,
                             hdr_size := size\<rparr>;
          m = m\<lparr>data_checksum := message_checksum X m p\<rparr>;
          s = s\<lparr>tx_message := m\<rparr>
      in case espif_tx_buffer (TxPrelude m) s of
           (tx_result, s) \<Rightarrow>
             if tx_result \<noteq> HAL_OK then (hal_err tx_result, s)
             else (case tx_segments p tx_result s of (r, s) \<Rightarrow> (hal_err r, s)))"

text \<open>How many transfers of a message of the given type the log holds.\<close>

fun is_prelude_of :: "MessageType \<Rightarrow> tx_item \<times> HAL_StatusTypeDef \<Rightarrow> bool" where
  "is_prelude_of t (TxPrelude m, r) = (hdr_type m = t)"
| "is_prelude_of t (TxSegment seg, r) = False"

definition requests_sent :: "MessageType \<Rightarrow> 'p espif_state \<Rightarrow> nat" where
  "requests_sent t s = length (filter (is_prelude_of t) (uart_tx_log s))"

subsection \<open>Link changes\<close>

text \<open>
  \<^verbatim>\<open>associated.exchange\<close> returns the old value, on which the call of the IP stack depends.
  The interface pointer is taken to be set.
\<close>

definition process_link_change :: "bool \<Rightarrow> 'p espif_state \<Rightarrow> 'p espif_state" where
  "process_link_change link_up s =
     (if link_up then
        (let s = (if \<not> scan_is_running s then s\<lparr>esp_operating_mode := ESPIF_RUNNING_MODE\<rparr>
                  else s)
         in if \<not> associated s
            then s\<lparr>associated := True, netif_calls := netif_calls s @ [Netif_set_link_up]\<rparr>
            else s\<lparr>associated := True\<rparr>)
      else
        (if associated s
         then s\<lparr>associated := False, netif_calls := netif_calls s @ [Netif_set_link_down]\<rparr>
         else s\<lparr>associated := False\<rparr>))"

text \<open>A sequence of link-change events, delivered one after the other.\<close>

definition process_link_changes :: "bool list \<Rightarrow> 'p espif_state \<Rightarrow> 'p espif_state" where
  "process_link_changes events s = foldl (\<lambda>s link_up. process_link_change link_up s) s events"

subsection \<open>Scanning for access points\<close>

definition scan_start :: "externs \<Rightarrow> 'p espif_state \<Rightarrow> err_t \<times> 'p espif_state" where
  "scan_start X s =
     (let s = s\<lparr>scan_is_running := True\<rparr>
      in case espif_tx_raw X SCAN_START 0 [] s of
           (err, s) \<Rightarrow>
             if err = ERR_OK
             then (err, s\<lparr>prescan_op_mode := esp_operating_mode s,
                          esp_operating_mode := ESPIF_SCANNING_MODE,
                          ap_count := 0\<rparr>)
             else (err, s\<lparr>scan_is_running := False\<rparr>))"

text \<open>
  \<^verbatim>\<open>compare_exchange_weak\<close> may fail although the slot holds the expected value; whether it does
  is the argument \<open>spurious\<close>.
\<close>

definition compare_exchange_weak_mode ::
  "bool \<Rightarrow> ESPIFOperatingMode \<Rightarrow> ESPIFOperatingMode \<Rightarrow> 'p espif_state \<Rightarrow> 'p espif_state" where
  "compare_exchange_weak_mode spurious expected desired s =
     (if esp_operating_mode s = expected \<and> \<not> spurious
      then s\<lparr>esp_operating_mode := desired\<rparr> else s)"

definition scan_stop :: "externs \<Rightarrow> bool \<Rightarrow> 'p espif_state \<Rightarrow> err_t \<times> 'p espif_state" where
  "scan_stop X spurious s =
     (if \<not> scan_is_running s then (ERR_IF, s)
      else case espif_tx_raw X SCAN_STOP 0 [] s of
             (err, s) \<Rightarrow>
               if err = ERR_OK
               then (err, compare_exchange_weak_mode spurious ESPIF_SCANNING_MODE
                            (prescan_op_mode s) (s\<lparr>scan_is_running := False\<rparr>))
               else (err, s))"

text \<open>
  A timed \<^verbatim>\<open>try_receive\<close> on the one-slot queue: what the queue holds, or else what arrives
  within the timeout.
\<close>

definition try_receive :: "'p espif_state \<Rightarrow> APInfo option \<times> 'p espif_state" where
  "try_receive s =
     (case ap_info_queue s of
        Some info \<Rightarrow> (Some info, s\<lparr>ap_info_queue := None\<rparr>)
      | None \<Rightarrow>
          (case ap_info_arrivals s of
             [] \<Rightarrow> (None, s)
           | a # rest \<Rightarrow> (a, s\<lparr>ap_info_arrivals := rest\<rparr>)))"

text \<open>
  The retry loop of \<^verbatim>\<open>get_ap_info\<close>, with the counter as the code has it: a signed integer
  that starts at 4, is tested with \<open>tries \<ge> 0\<close> and is decremented at the head of the body.
\<close>

function get_ap_info_loop ::
  "externs \<Rightarrow> int \<Rightarrow> err_t \<Rightarrow> u8 \<Rightarrow> 'p espif_state \<Rightarrow> (err_t \<times> APInfo option) \<times> 'p espif_state"
  where
  "get_ap_info_loop X tries last_error index s =
     (if tries \<ge> 0 then
        (case espif_tx_raw X SCAN_AP_GET index [] s of
           (err, s1) \<Rightarrow>
             if err \<noteq> ERR_OK then get_ap_info_loop X (tries - 1) err index s1
             else (case try_receive s1 of
                     (Some info, s2) \<Rightarrow> ((ERR_OK, Some info), s2)
                   | (None, s2) \<Rightarrow> get_ap_info_loop X (tries - 1) ERR_IF index s2))
      else ((last_error, None), s))"
  by pat_completeness auto
termination
  by (relation "measure (\<lambda>(X, tries, last_error, index, s). nat (tries + 1))") auto

text \<open>
  \<^verbatim>\<open>get_ap_info\<close>. The result \<open>None\<close> is the failure of \<^verbatim>\<open>assert(index < scan.ap_count)\<close>.
  The out-parameters (the SSID buffer and \<^verbatim>\<open>needs_password\<close>) are the returned record; the
  second assertion is about the size of the caller's buffer, which is not part of the model.
\<close>

definition get_ap_info ::
  "externs \<Rightarrow> u8 \<Rightarrow> 'p espif_state \<Rightarrow> ((err_t \<times> APInfo option) \<times> 'p espif_state) option" where
  "get_ap_info X index s =
     (if \<not> index < ap_count s then None
      else Some (get_ap_info_loop X 4 ERR_OK index (s\<lparr>ap_index := index\<rparr>)))"

text \<open>
  An environment in which the HAL accepts every transfer and no reply ever reaches the queue.
\<close>

definition silent :: "'p espif_state \<Rightarrow> bool" where
  "silent s \<longleftrightarrow> hal_script s = [] \<and> ap_info_queue s = None \<and> ap_info_arrivals s = []"

subsection \<open>Joining an access point\<close>

text \<open>
  \<^verbatim>\<open>espif_tx_msg_clientconfig_v2\<close>. \<open>rand_u\<close> gives the results of the four calls of the
  random generator in their order, \<open>pbuf_alloc_ok\<close> tells whether the allocation of the
  payload buffer succeeds. The two lengths are \<^verbatim>\<open>uint8_t\<close>: a string of 256 bytes or more is
  cut to its length modulo 256, as the assignment of \<^verbatim>\<open>strlen\<close> does.
\<close>

definition make_new_intron :: "(nat \<Rightarrow> u32) \<Rightarrow> u8 list \<Rightarrow> u8 list" where
  "make_new_intron rand_u cur =
     map (\<lambda>i. if i < 2 then cur ! i else ucast (rand_u (i - 2))) [0..<length cur]"

definition clientconfig_payload :: "u8 list \<Rightarrow> u8 list \<Rightarrow> u8 list \<Rightarrow> u8 list" where
  "clientconfig_payload new_intron ssid_str pass_str =
     (let ssid_len = (of_nat (length ssid_str) :: u8);
          pass_len = (of_nat (length pass_str) :: u8)
      in new_intron @ [ssid_len] @ take (unat ssid_len) ssid_str
           @ [pass_len] @ take (unat pass_len) pass_str)"

definition espif_tx_msg_clientconfig_v2 ::
  "externs \<Rightarrow> (nat \<Rightarrow> u32) \<Rightarrow> bool \<Rightarrow> u8 list \<Rightarrow> u8 list \<Rightarrow> 'p espif_state
     \<Rightarrow> err_t \<times> 'p espif_state" where
  "espif_tx_msg_clientconfig_v2 X rand_u pbuf_alloc_ok ssid_str pass_str s =
     (if scan_is_running s then (ERR_IF, s)
      else
        let new_intron = make_new_intron rand_u (intron (tx_message s))
        in if \<not> pbuf_alloc_ok then (ERR_MEM, s)
           else
             case espif_tx_raw X CLIENTCONFIG_V2 0
                    [clientconfig_payload new_intron ssid_str pass_str] s of
               (err, s) \<Rightarrow>
                 if err = ERR_OK
                 then (err, s\<lparr>tx_message := (tx_message s)\<lparr>intron := new_intron\<rparr>\<rparr>)
                 else (err, s))"

definition espif_join_ap ::
  "externs \<Rightarrow> (nat \<Rightarrow> u32) \<Rightarrow> bool \<Rightarrow> u8 list \<Rightarrow> u8 list \<Rightarrow> 'p espif_state
     \<Rightarrow> err_t \<times> 'p espif_state" where
  "espif_join_ap X rand_u pbuf_alloc_ok ssid_str pass_str s =
     (if \<not> is_running (esp_operating_mode s) then (ERR_IF, s)
      else
        case espif_tx_msg_clientconfig_v2 X rand_u pbuf_alloc_ok ssid_str pass_str s of
          (err, s) \<Rightarrow>
            if err = ERR_OK then (err, s\<lparr>esp_operating_mode := ESPIF_CONNECTING_AP\<rparr>)
            else (err, s))"

subsection \<open>Reset\<close>

definition reset_intron :: "'p espif_state \<Rightarrow> 'p espif_state" where
  "reset_intron s =
     s\<lparr>tx_message := (tx_message s)
         \<lparr>intron := map (\<lambda>i. if 2 \<le> i then of_nat (i - 2) else intron (tx_message s) ! i)
                       [0..<length (intron (tx_message s))]\<rparr>\<rparr>"

text \<open>The interface pointer is taken to be set: \<^verbatim>\<open>espif_init\<close> has run.\<close>

definition force_down :: "'p espif_state \<Rightarrow> 'p espif_state" where
  "force_down s = process_link_change False s"

definition hard_reset_device :: "'p espif_state \<Rightarrow> 'p espif_state" where
  "hard_reset_device s = s\<lparr>esp_rst_pulses := esp_rst_pulses s + 1, esp_detected := False\<rparr>"

text \<open>
  \<^verbatim>\<open>espif_reset\<close>. The parser's \<^verbatim>\<open>reset()\<close> belongs to the base class and is the argument
  \<open>parser_reset\<close>.
\<close>

definition espif_reset :: "('p \<Rightarrow> 'p) \<Rightarrow> 'p espif_state \<Rightarrow> 'p espif_state" where
  "espif_reset parser_reset s =
     (if \<not> can_recieve_data (esp_operating_mode s) then s
      else
        let s = reset_intron s;
            s = force_down s;
            s = hard_reset_device s;
            s = s\<lparr>esp_operating_mode := ESPIF_WAIT_INIT\<rparr>
        in s\<lparr>uart_rx_parser := parser_reset (uart_rx_parser s)\<rparr>)"

subsection \<open>Handlers of received messages\<close>

text \<open>
  The handlers of \<^verbatim>\<open>UartRxParser\<close>. The base class calls them when a message is complete,
  with its members \<^verbatim>\<open>checksum_valid\<close>, \<^verbatim>\<open>msg.header\<close> and \<^verbatim>\<open>buffer\<close> set; these are
  arguments here.
\<close>

definition validate_checksum :: "bool \<Rightarrow> 'p espif_state \<Rightarrow> bool \<times> 'p espif_state" where
  "validate_checksum checksum_valid s =
     (if \<not> checksum_valid then (checksum_valid, s)
      else (checksum_valid, s\<lparr>seen_intron := True\<rparr>))"

definition process_scan_ap_count :: "bool \<Rightarrow> u8 \<Rightarrow> 'p espif_state \<Rightarrow> 'p espif_state" where
  "process_scan_ap_count checksum_valid hdr_ap_count s =
     (case validate_checksum checksum_valid s of
        (ok, s) \<Rightarrow> if ok then s\<lparr>ap_count := hdr_ap_count\<rparr> else s)"

text \<open>
  Modelled from the spec: \<^verbatim>\<open>Queue::send\<close> of the one-slot queue is declared outside this
  file; a reply that finds the slot full is dropped.
\<close>

definition queue_send :: "APInfo \<Rightarrow> 'p espif_state \<Rightarrow> 'p espif_state" where
  "queue_send info s =
     (case ap_info_queue s of None \<Rightarrow> s\<lparr>ap_info_queue := Some info\<rparr> | Some _ \<Rightarrow> s)"

definition process_scan_ap_info ::
  "bool \<Rightarrow> u8 \<Rightarrow> APInfo \<Rightarrow> 'p espif_state \<Rightarrow> 'p espif_state" where
  "process_scan_ap_info checksum_valid hdr_ap_index info s =
     (case validate_checksum checksum_valid s of
        (ok, s) \<Rightarrow> if ok \<and> hdr_ap_index = ap_index s then queue_send info s else s)"

text \<open>
  \<^verbatim>\<open>process_esp_device_info\<close>. The result of \<open>validate_checksum\<close> is not used, as in the
  code. \<open>buffer\<close> is the parser's small buffer, at least six bytes long.
\<close>

definition process_esp_device_info ::
  "externs \<Rightarrow> bool \<Rightarrow> u8 \<Rightarrow> u8 list \<Rightarrow> 'p espif_state \<Rightarrow> 'p espif_state" where
  "process_esp_device_info X checksum_valid hdr_version buffer s =
     (case validate_checksum checksum_valid s of
        (_, s) \<Rightarrow>
          let s = s\<lparr>netif_hwaddr_len := 6, netif_hwaddr := take 6 buffer\<rparr>
          in if esp_operating_mode s = ESPIF_WAIT_INIT then
               (if hdr_version \<noteq> REQUIRED_PROTOCOL_VERSION X
                then s\<lparr>esp_operating_mode := ESPIF_WRONG_FW\<rparr>
                else s\<lparr>esp_operating_mode := ESPIF_NEED_AP, esp_was_ok := True\<rparr>)
             else s)"

subsection \<open>The completion-signal slot\<close>

text \<open>
  \<^verbatim>\<open>espif_tx_buffer\<close> and the interrupt's \<^verbatim>\<open>espif_tx_callback\<close> share the atomic pointer
  \<^verbatim>\<open>tx_semaphore_active\<close> (here a flag: it holds the semaphore's address or \<^verbatim>\<open>nullptr\<close>) and
  the binary semaphore \<^verbatim>\<open>tx_semaphore\<close> (a flag: given or not). Each atomic operation is one
  step of the sending task; the callback is one step that may run between any two of them.
  The callers hold \<^verbatim>\<open>uart_write_mutex\<close>, so one task at a time is inside
  \<^verbatim>\<open>espif_tx_buffer\<close>, and \<open>tx_pc\<close> says where it is. A failed assertion stops the task.
  The four counters are not in the code: they count the claims, the transfers handed to
  the HAL, and the releases by the interrupt and by the task itself.
\<close>

datatype tx_pc =
    Entry
  | Claimed
  | Acquiring
  | Withdrawing
  | Assert_old_failed
  | Assert_withdrawn_failed

record tx_chan =
  tx_semaphore_active :: bool
  tx_semaphore :: bool
  tx_pc :: tx_pc
  claims :: nat
  dma_started :: nat
  isr_releases :: nat
  own_releases :: nat

definition tx_init :: tx_chan where
  "tx_init = \<lparr> tx_semaphore_active = False, tx_semaphore = False, tx_pc = Entry,
               claims = 0, dma_started = 0, isr_releases = 0, own_releases = 0 \<rparr>"

definition espif_tx_callback :: "tx_chan \<Rightarrow> tx_chan" where
  "espif_tx_callback c =
     (if tx_semaphore_active c
      then c\<lparr>tx_semaphore_active := False, tx_semaphore := True,
             isr_releases := isr_releases c + 1\<rparr>
      else c)"

text \<open>The exchange at the head of \<^verbatim>\<open>espif_tx_buffer\<close> and the assertion on what it returns.\<close>

definition tx_claim :: "tx_chan \<Rightarrow> tx_chan" where
  "tx_claim c =
     (let old_semaphore = tx_semaphore_active c;
          c = c\<lparr>tx_semaphore_active := True, claims := claims c + 1\<rparr>
      in if old_semaphore then c\<lparr>tx_pc := Assert_old_failed\<rparr> else c\<lparr>tx_pc := Claimed\<rparr>)"

text \<open>The call of \<^verbatim>\<open>HAL_UART_Transmit_DMA\<close>; \<open>hal_ok\<close> tells whether it returns \<^verbatim>\<open>HAL_OK\<close>.\<close>

definition tx_transmit :: "bool \<Rightarrow> tx_chan \<Rightarrow> tx_chan" where
  "tx_transmit hal_ok c =
     c\<lparr>dma_started := dma_started c + 1,
       tx_pc := (if hal_ok then Acquiring else Withdrawing)\<rparr>"

text \<open>\<^verbatim>\<open>tx_semaphore.acquire()\<close> returning: it can only when the semaphore is given.\<close>

definition tx_acquire :: "tx_chan \<Rightarrow> tx_chan" where
  "tx_acquire c = c\<lparr>tx_semaphore := False, tx_pc := Entry\<rparr>"

text \<open>The exchange on the failure path and the assertion on what it returns.\<close>

definition tx_withdraw :: "tx_chan \<Rightarrow> tx_chan" where
  "tx_withdraw c =
     (let withdrawn = tx_semaphore_active c;
          c = c\<lparr>tx_semaphore_active := False\<rparr>
      in if withdrawn then c\<lparr>own_releases := own_releases c + 1, tx_pc := Entry\<rparr>
         else c\<lparr>tx_pc := Assert_withdrawn_failed\<rparr>)"

inductive tx_step :: "tx_chan \<Rightarrow> tx_chan \<Rightarrow> bool" where
  step_claim: "tx_pc c = Entry \<Longrightarrow> tx_step c (tx_claim c)"
| step_transmit: "tx_pc c = Claimed \<Longrightarrow> tx_step c (tx_transmit hal_ok c)"
| step_acquire: "tx_pc c = Acquiring \<Longrightarrow> tx_semaphore c \<Longrightarrow> tx_step c (tx_acquire c)"
| step_withdraw: "tx_pc c = Withdrawing \<Longrightarrow> tx_step c (tx_withdraw c)"
| step_interrupt: "tx_step c (espif_tx_callback c)"

inductive tx_reachable :: "tx_chan \<Rightarrow> bool" where
  reach_init: "tx_reachable tx_init"
| reach_step: "tx_reachable c \<Longrightarrow> tx_step c c' \<Longrightarrow> tx_reachable c'"

text \<open>
  Pairing of claims and releases in a state of the channel: every claim but an outstanding
  one has been released once, every claim but one just made has been followed by one call
  of the HAL, the assertion at the entry has not failed, and no claim is outstanding when the
  task is at the entry.
\<close>

definition tx_paired :: "tx_chan \<Rightarrow> bool" where
  "tx_paired c \<longleftrightarrow>
     claims c = isr_releases c + own_releases c + (if tx_semaphore_active c then 1 else 0)
     \<and> claims c = dma_started c + (if tx_pc c = Claimed then 1 else 0)
     \<and> tx_pc c \<noteq> Assert_old_failed
     \<and> (tx_pc c = Entry \<longrightarrow> \<not> tx_semaphore_active c)"

text \<open>
  The invariant of the channel: \<open>tx_paired\<close>, and besides the semaphore is given only while
  the slot is free, and is not given when the task is at the entry.
\<close>

definition tx_inv :: "tx_chan \<Rightarrow> bool" where
  "tx_inv c \<longleftrightarrow>
     tx_paired c
     \<and> (tx_semaphore c \<longrightarrow> \<not> tx_semaphore_active c)
     \<and> (tx_pc c = Entry \<longrightarrow> \<not> tx_semaphore c)"

subsection \<open>Sample arguments\<close>

text \<open>Concrete values for the arguments, used where a statement is evaluated.\<close>

definition sample_externs :: externs where
  "sample_externs =
     \<lparr> crc32_calc_ex = (\<lambda>crc bytes. crc + of_nat (length bytes)),
       message_type_byte = (\<lambda>t. case t of DEVICE_INFO_V2 \<Rightarrow> 0 | CLIENTCONFIG_V2 \<Rightarrow> 6
                                   | PACKET_V2 \<Rightarrow> 7 | SCAN_START \<Rightarrow> 8 | SCAN_STOP \<Rightarrow> 9
                                   | SCAN_AP_GET \<Rightarrow> 11),
       REQUIRED_PROTOCOL_VERSION = 14 \<rparr>"

definition sample_rand_u :: "nat \<Rightarrow> u32" where
  "sample_rand_u i = 4096 + 17 * of_nat i"

definition sample_state :: "unit espif_state" where
  "sample_state = power_on [85, 78, 0, 1, 2, 3] ()"

section \<open>Properties\<close>

subsection \<open>Firmware state\<close>

text \<open>
  C8. Whenever the latch \<open>esp_was_ok\<close> is set, \<open>esp_fw_state\<close> returns neither
  \<open>NoFirmware\<close> nor \<open>NoEsp\<close>, whatever the operating mode, the detection flag, the
  countdown and the link state are. It holds in every state, reachable or not.
\<close>

theorem esp_fw_state_latched:
  "esp_was_ok s \<Longrightarrow> esp_fw_state s \<noteq> NoFirmware \<and> esp_fw_state s \<noteq> NoEsp"
  by (cases "esp_operating_mode s") (simp_all add: esp_fw_state_def)

theorem esp_fw_state_latched_witness:
  "esp_was_ok (sample_state
       \<lparr>esp_operating_mode := ESPIF_WAIT_INIT, esp_was_ok := True, init_countdown := 0\<rparr>)
   \<and> esp_fw_state (sample_state
       \<lparr>esp_operating_mode := ESPIF_WAIT_INIT, esp_was_ok := True, init_countdown := 0\<rparr>)
       \<noteq> NoFirmware
   \<and> esp_fw_state (sample_state
       \<lparr>esp_operating_mode := ESPIF_WAIT_INIT, esp_was_ok := True, init_countdown := 0\<rparr>)
       \<noteq> NoEsp"
  using esp_fw_state_latched
    [of "sample_state
       \<lparr>esp_operating_mode := ESPIF_WAIT_INIT, esp_was_ok := True, init_countdown := 0\<rparr>"]
  by (simp add: sample_state_def power_on_def)

subsection \<open>Facts about the transmit path\<close>

lemma espif_tx_raw_no_payload:
  "espif_tx_raw X t b [] s =
     (let m = (tx_message s)\<lparr>hdr_type := t, hdr_variable_byte := b, hdr_size := 0\<rparr>;
          m = m\<lparr>data_checksum := message_checksum X m []\<rparr>;
          r = HAL_UART_Transmit_DMA (hal_script s)
      in (hal_err r,
          s\<lparr>tx_message := m,
            uart_tx_log := uart_tx_log s @ [(TxPrelude m, r)],
            hal_script := tl (hal_script s)\<rparr>))"
  by (simp add: espif_tx_raw_def espif_tx_buffer_def Let_def)

lemma hal_err_ok: "hal_err r = 0 \<longleftrightarrow> r = HAL_OK"
  by (cases r) simp_all

lemma hal_err_not_if: "hal_err r \<noteq> ERR_IF"
  by (cases r) (simp_all add: ERR_IF_def)

subsection \<open>Starting and stopping a scan\<close>

text \<open>
  C6. \<open>scan_start\<close> sets the scan-running flag and hands one \<open>SCAN_START\<close> prelude to the
  HAL; what it returns is the HAL's status. If the transmit fails, the flag is false afterwards
  and the operating mode, \<open>ap_count\<close> and the saved mode are unchanged. If it succeeds, the
  flag is set, the saved mode is the mode before the call, the mode is \<open>ESPIF_SCANNING_MODE\<close>
  and \<open>ap_count\<close> is 0.
\<close>

theorem scan_start_effect:
  "scan_start X s = (err, s') \<Longrightarrow>
     err = hal_err (HAL_UART_Transmit_DMA (hal_script s))
     \<and> (\<exists>m. hdr_type m = SCAN_START
            \<and> uart_tx_log s' = uart_tx_log s @ [(TxPrelude m, HAL_UART_Transmit_DMA (hal_script s))])
     \<and> (err \<noteq> ERR_OK \<longrightarrow>
           \<not> scan_is_running s' \<and> esp_operating_mode s' = esp_operating_mode s
           \<and> ap_count s' = ap_count s \<and> prescan_op_mode s' = prescan_op_mode s)
     \<and> (err = ERR_OK \<longrightarrow>
           scan_is_running s' \<and> prescan_op_mode s' = esp_operating_mode s
           \<and> esp_operating_mode s' = ESPIF_SCANNING_MODE \<and> ap_count s' = 0)"
  by (auto simp: scan_start_def espif_tx_raw_no_payload Let_def hal_err_ok ERR_OK_def
      split: if_splits)

theorem scan_start_effect_witness:
  "fst (scan_start sample_externs
          (sample_state\<lparr>ap_count := 3, esp_operating_mode := ESPIF_NEED_AP\<rparr>)) = ERR_OK
   \<and> esp_operating_mode (snd (scan_start sample_externs
          (sample_state\<lparr>ap_count := 3, esp_operating_mode := ESPIF_NEED_AP\<rparr>)))
       = ESPIF_SCANNING_MODE
   \<and> prescan_op_mode (snd (scan_start sample_externs
          (sample_state\<lparr>ap_count := 3, esp_operating_mode := ESPIF_NEED_AP\<rparr>)))
       = ESPIF_NEED_AP
   \<and> ap_count (snd (scan_start sample_externs
          (sample_state\<lparr>ap_count := 3, esp_operating_mode := ESPIF_NEED_AP\<rparr>))) = 0
   \<and> fst (scan_start sample_externs
          (sample_state\<lparr>ap_count := 3, hal_script := [HAL_BUSY]\<rparr>)) = 2
   \<and> scan_is_running (snd (scan_start sample_externs
          (sample_state\<lparr>ap_count := 3, hal_script := [HAL_BUSY]\<rparr>))) = False
   \<and> ap_count (snd (scan_start sample_externs
          (sample_state\<lparr>ap_count := 3, hal_script := [HAL_BUSY]\<rparr>))) = 3"
  using
    scan_start_effect [of sample_externs
      "sample_state\<lparr>ap_count := 3, esp_operating_mode := ESPIF_NEED_AP\<rparr>"
      "fst (scan_start sample_externs
              (sample_state\<lparr>ap_count := 3, esp_operating_mode := ESPIF_NEED_AP\<rparr>))"
      "snd (scan_start sample_externs
              (sample_state\<lparr>ap_count := 3, esp_operating_mode := ESPIF_NEED_AP\<rparr>))"]
    scan_start_effect [of sample_externs
      "sample_state\<lparr>ap_count := 3, hal_script := [HAL_BUSY]\<rparr>"
      "fst (scan_start sample_externs (sample_state\<lparr>ap_count := 3, hal_script := [HAL_BUSY]\<rparr>))"
      "snd (scan_start sample_externs (sample_state\<lparr>ap_count := 3, hal_script := [HAL_BUSY]\<rparr>))"]
  by (simp add: sample_state_def power_on_def HAL_UART_Transmit_DMA_def ERR_OK_def)

text \<open>
  What \<open>scan_stop\<close> does. It returns \<open>ERR_IF\<close> and leaves the whole state, the transmit
  log included, as it was when no scan is running. Otherwise it hands one \<open>SCAN_STOP\<close>
  prelude to the HAL and returns the HAL's status. If the transmit fails, the flag and the
  mode are unchanged. If it succeeds, the flag is cleared, and the mode becomes the saved mode
  when it was \<open>ESPIF_SCANNING_MODE\<close> and the weak compare-exchange took effect; in every other
  case the mode is unchanged, so a mode other than scanning is never overwritten.
\<close>

lemma scan_stop_effect:
  "scan_stop X spurious s = (err, s') \<Longrightarrow>
     (\<not> scan_is_running s \<longrightarrow> err = ERR_IF \<and> s' = s)
     \<and> (scan_is_running s \<longrightarrow>
          err = hal_err (HAL_UART_Transmit_DMA (hal_script s))
          \<and> (\<exists>m. hdr_type m = SCAN_STOP
                 \<and> uart_tx_log s' = uart_tx_log s @ [(TxPrelude m, HAL_UART_Transmit_DMA (hal_script s))])
          \<and> prescan_op_mode s' = prescan_op_mode s
          \<and> (err \<noteq> ERR_OK \<longrightarrow>
                scan_is_running s' \<and> esp_operating_mode s' = esp_operating_mode s)
          \<and> (err = ERR_OK \<longrightarrow>
                \<not> scan_is_running s'
                \<and> esp_operating_mode s' =
                    (if esp_operating_mode s = ESPIF_SCANNING_MODE \<and> \<not> spurious
                     then prescan_op_mode s else esp_operating_mode s)))"
  by (auto simp: scan_stop_def espif_tx_raw_no_payload compare_exchange_weak_mode_def Let_def
        hal_err_ok ERR_OK_def split: if_splits)

lemma scan_stop_effect_sample:
  "scan_stop sample_externs False sample_state = (ERR_IF, sample_state)
   \<and> fst (scan_stop sample_externs False
            (sample_state\<lparr>scan_is_running := True, hal_script := [HAL_ERROR],
               esp_operating_mode := ESPIF_SCANNING_MODE, prescan_op_mode := ESPIF_NEED_AP\<rparr>)) = 1
   \<and> scan_is_running (snd (scan_stop sample_externs False
            (sample_state\<lparr>scan_is_running := True, hal_script := [HAL_ERROR],
               esp_operating_mode := ESPIF_SCANNING_MODE, prescan_op_mode := ESPIF_NEED_AP\<rparr>)))
   \<and> esp_operating_mode (snd (scan_stop sample_externs False
            (sample_state\<lparr>scan_is_running := True, hal_script := [HAL_ERROR],
               esp_operating_mode := ESPIF_SCANNING_MODE, prescan_op_mode := ESPIF_NEED_AP\<rparr>)))
       = ESPIF_SCANNING_MODE
   \<and> fst (scan_stop sample_externs False
            (sample_state\<lparr>scan_is_running := True,
               esp_operating_mode := ESPIF_SCANNING_MODE, prescan_op_mode := ESPIF_NEED_AP\<rparr>)) = ERR_OK
   \<and> scan_is_running (snd (scan_stop sample_externs False
            (sample_state\<lparr>scan_is_running := True,
               esp_operating_mode := ESPIF_SCANNING_MODE, prescan_op_mode := ESPIF_NEED_AP\<rparr>))) = False
   \<and> esp_operating_mode (snd (scan_stop sample_externs False
            (sample_state\<lparr>scan_is_running := True,
               esp_operating_mode := ESPIF_SCANNING_MODE, prescan_op_mode := ESPIF_NEED_AP\<rparr>)))
       = ESPIF_NEED_AP
   \<and> esp_operating_mode (snd (scan_stop sample_externs False
            (sample_state\<lparr>scan_is_running := True,
               esp_operating_mode := ESPIF_RUNNING_MODE, prescan_op_mode := ESPIF_NEED_AP\<rparr>)))
       = ESPIF_RUNNING_MODE"
  using
    scan_stop_effect [of sample_externs False sample_state
      "fst (scan_stop sample_externs False sample_state)"
      "snd (scan_stop sample_externs False sample_state)"]
    scan_stop_effect [of sample_externs False
      "sample_state\<lparr>scan_is_running := True, hal_script := [HAL_ERROR],
         esp_operating_mode := ESPIF_SCANNING_MODE, prescan_op_mode := ESPIF_NEED_AP\<rparr>"
      "fst (scan_stop sample_externs False
         (sample_state\<lparr>scan_is_running := True, hal_script := [HAL_ERROR],
            esp_operating_mode := ESPIF_SCANNING_MODE, prescan_op_mode := ESPIF_NEED_AP\<rparr>))"
      "snd (scan_stop sample_externs False
         (sample_state\<lparr>scan_is_running := True, hal_script := [HAL_ERROR],
            esp_operating_mode := ESPIF_SCANNING_MODE, prescan_op_mode := ESPIF_NEED_AP\<rparr>))"]
    scan_stop_effect [of sample_externs False
      "sample_state\<lparr>scan_is_running := True,
         esp_operating_mode := ESPIF_SCANNING_MODE, prescan_op_mode := ESPIF_NEED_AP\<rparr>"
      "fst (scan_stop sample_externs False
         (sample_state\<lparr>scan_is_running := True,
            esp_operating_mode := ESPIF_SCANNING_MODE, prescan_op_mode := ESPIF_NEED_AP\<rparr>))"
      "snd (scan_stop sample_externs False
         (sample_state\<lparr>scan_is_running := True,
            esp_operating_mode := ESPIF_SCANNING_MODE, prescan_op_mode := ESPIF_NEED_AP\<rparr>))"]
    scan_stop_effect [of sample_externs False
      "sample_state\<lparr>scan_is_running := True,
         esp_operating_mode := ESPIF_RUNNING_MODE, prescan_op_mode := ESPIF_NEED_AP\<rparr>"
      "fst (scan_stop sample_externs False
         (sample_state\<lparr>scan_is_running := True,
            esp_operating_mode := ESPIF_RUNNING_MODE, prescan_op_mode := ESPIF_NEED_AP\<rparr>))"
      "snd (scan_stop sample_externs False
         (sample_state\<lparr>scan_is_running := True,
            esp_operating_mode := ESPIF_RUNNING_MODE, prescan_op_mode := ESPIF_NEED_AP\<rparr>))"]
  by (simp add: sample_state_def power_on_def HAL_UART_Transmit_DMA_def ERR_OK_def ERR_IF_def
      scan_stop_def espif_tx_raw_no_payload compare_exchange_weak_mode_def Let_def)

text \<open>
  C7 fails on the code in the restore. The code makes one \<^verbatim>\<open>compare_exchange_weak\<close>, outside
  any loop, and drops its result, where the device-info handler uses
  \<^verbatim>\<open>compare_exchange_strong\<close>. With a scan running, the mode at \<open>ESPIF_SCANNING_MODE\<close>, the
  saved mode \<open>ESPIF_NEED_AP\<close>, the HAL accepting the transfer and the weak compare-exchange
  failing although the mode is the expected one, \<open>scan_stop\<close> returns \<open>ERR_OK\<close> and clears
  the flag, but the mode stays at \<open>ESPIF_SCANNING_MODE\<close>: the saved mode is not restored. When
  the compare-exchange takes effect on the same state, the mode is \<open>ESPIF_NEED_AP\<close>.
\<close>

theorem scan_stop_restore_lost:
  "fst (scan_stop sample_externs True
          (sample_state\<lparr>scan_is_running := True,
             esp_operating_mode := ESPIF_SCANNING_MODE, prescan_op_mode := ESPIF_NEED_AP\<rparr>)) = ERR_OK
   \<and> scan_is_running (snd (scan_stop sample_externs True
          (sample_state\<lparr>scan_is_running := True,
             esp_operating_mode := ESPIF_SCANNING_MODE, prescan_op_mode := ESPIF_NEED_AP\<rparr>))) = False
   \<and> esp_operating_mode (snd (scan_stop sample_externs True
          (sample_state\<lparr>scan_is_running := True,
             esp_operating_mode := ESPIF_SCANNING_MODE, prescan_op_mode := ESPIF_NEED_AP\<rparr>)))
       = ESPIF_SCANNING_MODE
   \<and> prescan_op_mode (snd (scan_stop sample_externs True
          (sample_state\<lparr>scan_is_running := True,
             esp_operating_mode := ESPIF_SCANNING_MODE, prescan_op_mode := ESPIF_NEED_AP\<rparr>)))
       = ESPIF_NEED_AP
   \<and> esp_operating_mode (snd (scan_stop sample_externs False
          (sample_state\<lparr>scan_is_running := True,
             esp_operating_mode := ESPIF_SCANNING_MODE, prescan_op_mode := ESPIF_NEED_AP\<rparr>)))
       = ESPIF_NEED_AP"
  by (simp add: sample_state_def power_on_def HAL_UART_Transmit_DMA_def ERR_OK_def ERR_IF_def
      scan_stop_def espif_tx_raw_no_payload compare_exchange_weak_mode_def Let_def)

text \<open>
  C10. \<open>scan_start\<close> checks nothing: from every state, a scan already running included, it
  hands a \<open>SCAN_START\<close> prelude to the HAL, never returns \<open>ERR_IF\<close>, and leaves the flag set
  when the transmit succeeded. After two successful starts in a row the saved mode is
  \<open>ESPIF_SCANNING_MODE\<close>, and a successful stop then leaves the mode at
  \<open>ESPIF_SCANNING_MODE\<close> instead of the mode before the first start.
\<close>

theorem scan_start_unvalidated:
  "(scan_start X s = (err, s') \<longrightarrow>
      err \<noteq> ERR_IF
      \<and> (\<exists>m. hdr_type m = SCAN_START
             \<and> uart_tx_log s' = uart_tx_log s @ [(TxPrelude m, HAL_UART_Transmit_DMA (hal_script s))])
      \<and> (err = ERR_OK \<longrightarrow> scan_is_running s'))
   \<and> (scan_start X s = (ERR_OK, s1) \<and> scan_start X s1 = (ERR_OK, s2)
        \<and> scan_stop X spurious s2 = (ERR_OK, s3) \<longrightarrow>
      scan_is_running s1 \<and> prescan_op_mode s1 = esp_operating_mode s
      \<and> prescan_op_mode s2 = ESPIF_SCANNING_MODE
      \<and> esp_operating_mode s3 = ESPIF_SCANNING_MODE \<and> \<not> scan_is_running s3)"
proof (intro conjI impI)
  assume a: "scan_start X s = (err, s')"
  then show "err \<noteq> ERR_IF"
    by (auto simp: scan_start_def espif_tx_raw_no_payload Let_def hal_err_not_if split: if_splits)
  from a show "\<exists>m. hdr_type m = SCAN_START
             \<and> uart_tx_log s' = uart_tx_log s @ [(TxPrelude m, HAL_UART_Transmit_DMA (hal_script s))]"
    by (auto simp: scan_start_def espif_tx_raw_no_payload Let_def split: if_splits)
  assume "err = ERR_OK"
  with a show "scan_is_running s'"
    by (auto simp: scan_start_def espif_tx_raw_no_payload Let_def split: if_splits)
next
  assume b: "scan_start X s = (ERR_OK, s1) \<and> scan_start X s1 = (ERR_OK, s2)
        \<and> scan_stop X spurious s2 = (ERR_OK, s3)"
  then have s1: "scan_is_running s1" "prescan_op_mode s1 = esp_operating_mode s"
      "esp_operating_mode s1 = ESPIF_SCANNING_MODE"
    by (auto simp: scan_start_def espif_tx_raw_no_payload Let_def split: if_splits)
  from b have s2: "scan_is_running s2" "prescan_op_mode s2 = esp_operating_mode s1"
      "esp_operating_mode s2 = ESPIF_SCANNING_MODE"
    by (auto simp: scan_start_def espif_tx_raw_no_payload Let_def split: if_splits)
  from b s2 have s3: "esp_operating_mode s3 = ESPIF_SCANNING_MODE" "\<not> scan_is_running s3"
    using s1(3)
    by (auto simp: scan_stop_def espif_tx_raw_no_payload compare_exchange_weak_mode_def Let_def
          ERR_OK_def ERR_IF_def split: if_splits)
  show "scan_is_running s1" by (rule s1)
  show "prescan_op_mode s1 = esp_operating_mode s" by (rule s1)
  show "prescan_op_mode s2 = ESPIF_SCANNING_MODE" using s1 s2 by simp
  show "esp_operating_mode s3 = ESPIF_SCANNING_MODE" by (rule s3)
  show "\<not> scan_is_running s3" by (rule s3)
qed

theorem scan_start_unvalidated_witness:
  "fst (scan_start sample_externs
          (sample_state\<lparr>esp_operating_mode := ESPIF_NEED_AP, scan_is_running := True\<rparr>)) = ERR_OK
   \<and> scan_is_running (snd (scan_start sample_externs
          (sample_state\<lparr>esp_operating_mode := ESPIF_NEED_AP, scan_is_running := True\<rparr>)))
   \<and> fst (scan_start sample_externs (sample_state\<lparr>esp_operating_mode := ESPIF_NEED_AP\<rparr>)) = ERR_OK
   \<and> fst (scan_start sample_externs
          (snd (scan_start sample_externs (sample_state\<lparr>esp_operating_mode := ESPIF_NEED_AP\<rparr>))))
       = ERR_OK
   \<and> fst (scan_stop sample_externs False
          (snd (scan_start sample_externs
             (snd (scan_start sample_externs
                (sample_state\<lparr>esp_operating_mode := ESPIF_NEED_AP\<rparr>)))))) = ERR_OK
   \<and> esp_operating_mode (snd (scan_stop sample_externs False
          (snd (scan_start sample_externs
             (snd (scan_start sample_externs
                (sample_state\<lparr>esp_operating_mode := ESPIF_NEED_AP\<rparr>)))))))
       = ESPIF_SCANNING_MODE"
  using
    scan_start_unvalidated [of sample_externs
      "sample_state\<lparr>esp_operating_mode := ESPIF_NEED_AP, scan_is_running := True\<rparr>"
      "fst (scan_start sample_externs
          (sample_state\<lparr>esp_operating_mode := ESPIF_NEED_AP, scan_is_running := True\<rparr>))"
      "snd (scan_start sample_externs
          (sample_state\<lparr>esp_operating_mode := ESPIF_NEED_AP, scan_is_running := True\<rparr>))"
      "snd (scan_start sample_externs
          (sample_state\<lparr>esp_operating_mode := ESPIF_NEED_AP, scan_is_running := True\<rparr>))"
      "snd (scan_start sample_externs
          (sample_state\<lparr>esp_operating_mode := ESPIF_NEED_AP, scan_is_running := True\<rparr>))"
      False
      "snd (scan_start sample_externs
          (sample_state\<lparr>esp_operating_mode := ESPIF_NEED_AP, scan_is_running := True\<rparr>))"]
    scan_start_unvalidated [of sample_externs
      "sample_state\<lparr>esp_operating_mode := ESPIF_NEED_AP\<rparr>"
      "fst (scan_start sample_externs (sample_state\<lparr>esp_operating_mode := ESPIF_NEED_AP\<rparr>))"
      "snd (scan_start sample_externs (sample_state\<lparr>esp_operating_mode := ESPIF_NEED_AP\<rparr>))"
      "snd (scan_start sample_externs (sample_state\<lparr>esp_operating_mode := ESPIF_NEED_AP\<rparr>))"
      "snd (scan_start sample_externs
          (snd (scan_start sample_externs (sample_state\<lparr>esp_operating_mode := ESPIF_NEED_AP\<rparr>))))"
      False
      "snd (scan_stop sample_externs False
          (snd (scan_start sample_externs
             (snd (scan_start sample_externs
                (sample_state\<lparr>esp_operating_mode := ESPIF_NEED_AP\<rparr>))))))"]
  by (simp add: sample_state_def power_on_def HAL_UART_Transmit_DMA_def ERR_OK_def ERR_IF_def
      scan_start_def scan_stop_def espif_tx_raw_no_payload compare_exchange_weak_mode_def Let_def)

subsection \<open>Link changes\<close>

lemma process_link_change_calls:
  "netif_calls (process_link_change link_up s) =
     netif_calls s @
       (if link_up \<and> \<not> associated s then [Netif_set_link_up]
        else if \<not> link_up \<and> associated s then [Netif_set_link_down]
        else [])"
  by (simp add: process_link_change_def Let_def)

lemma process_link_change_associated:
  "associated (process_link_change link_up s) = link_up"
  by (simp add: process_link_change_def Let_def)

lemma process_link_changes_snoc:
  "process_link_changes (events @ [b]) s = process_link_change b (process_link_changes events s)"
  by (simp add: process_link_changes_def)

text \<open>
  C9. \<open>process_link_change\<close> calls set-link-up exactly when it is given link-up while
  \<open>associated\<close> is false, set-link-down exactly when it is given link-down while \<open>associated\<close>
  is true, and nothing otherwise. So after any sequence of link-change events, delivering the
  last link state a second time adds no call on the IP stack.
\<close>

theorem link_change_notifies_on_transition:
  "netif_calls (process_link_change link_up s) =
     netif_calls s @
       (if link_up \<and> \<not> associated s then [Netif_set_link_up]
        else if \<not> link_up \<and> associated s then [Netif_set_link_down]
        else [])
   \<and> netif_calls (process_link_changes (events @ [link_up, link_up]) s) =
       netif_calls (process_link_changes (events @ [link_up]) s)"
proof
  show "netif_calls (process_link_change link_up s) =
     netif_calls s @
       (if link_up \<and> \<not> associated s then [Netif_set_link_up]
        else if \<not> link_up \<and> associated s then [Netif_set_link_down]
        else [])"
    by (rule process_link_change_calls)
  have "process_link_changes (events @ [link_up, link_up]) s =
      process_link_change link_up (process_link_changes (events @ [link_up]) s)"
    using process_link_changes_snoc [of "events @ [link_up]" link_up s] by simp
  then show "netif_calls (process_link_changes (events @ [link_up, link_up]) s) =
       netif_calls (process_link_changes (events @ [link_up]) s)"
    by (simp add: process_link_change_calls process_link_changes_snoc
        process_link_change_associated)
qed

theorem link_change_notifies_on_transition_witness:
  "netif_calls (process_link_change True sample_state) = [Netif_set_link_up]
   \<and> netif_calls (process_link_changes ([True, False] @ [True, True]) sample_state)
       = [Netif_set_link_up, Netif_set_link_down, Netif_set_link_up]
   \<and> netif_calls (process_link_changes ([True, False] @ [True]) sample_state)
       = [Netif_set_link_up, Netif_set_link_down, Netif_set_link_up]"
  using link_change_notifies_on_transition [of True sample_state "[True, False]"]
  by (simp add: sample_state_def power_on_def process_link_changes_def process_link_change_def)

subsection \<open>Reset\<close>

text \<open>
  C4, as the code has it. \<open>espif_reset\<close> changes nothing in the three modes that cannot
  receive data (uninitialised, wrong firmware, flashing error other than not connected). In
  every other mode it sets the mode to \<open>ESPIF_WAIT_INIT\<close>, resets the receive parser, takes
  the link down (one set-link-down call when it was up), clears \<open>esp_detected\<close>, pulses the
  reset line and sets the intron's bytes from the third on to 0, 1, 2, 3. In no mode does it
  change \<open>seen_intron\<close> or \<open>seen_rx_packet\<close>.
\<close>

theorem espif_reset_effect:
  "(\<not> can_recieve_data (esp_operating_mode s) \<longrightarrow> espif_reset parser_reset s = s)
   \<and> (can_recieve_data (esp_operating_mode s) \<longrightarrow>
        esp_operating_mode (espif_reset parser_reset s) = ESPIF_WAIT_INIT
        \<and> uart_rx_parser (espif_reset parser_reset s) = parser_reset (uart_rx_parser s)
        \<and> \<not> associated (espif_reset parser_reset s)
        \<and> netif_calls (espif_reset parser_reset s) =
            netif_calls s @ (if associated s then [Netif_set_link_down] else [])
        \<and> \<not> esp_detected (espif_reset parser_reset s)
        \<and> esp_rst_pulses (espif_reset parser_reset s) = esp_rst_pulses s + 1
        \<and> length (intron (tx_message (espif_reset parser_reset s))) = length (intron (tx_message s))
        \<and> (\<forall>i < length (intron (tx_message s)).
              intron (tx_message (espif_reset parser_reset s)) ! i =
                (if 2 \<le> i then of_nat (i - 2) else intron (tx_message s) ! i)))
   \<and> seen_intron (espif_reset parser_reset s) = seen_intron s
   \<and> seen_rx_packet (espif_reset parser_reset s) = seen_rx_packet s"
  by (simp add: espif_reset_def reset_intron_def force_down_def hard_reset_device_def
      process_link_change_def Let_def)

theorem espif_reset_effect_witness:
  "espif_reset id sample_state = sample_state
   \<and> esp_operating_mode (espif_reset id
        (sample_state\<lparr>esp_operating_mode := ESPIF_RUNNING_MODE, associated := True,
           seen_intron := True\<rparr>)) = ESPIF_WAIT_INIT
   \<and> netif_calls (espif_reset id
        (sample_state\<lparr>esp_operating_mode := ESPIF_RUNNING_MODE, associated := True,
           seen_intron := True\<rparr>)) = [Netif_set_link_down]
   \<and> intron (tx_message (espif_reset id
        (sample_state\<lparr>esp_operating_mode := ESPIF_RUNNING_MODE, associated := True,
           seen_intron := True,
           tx_message := (tx_message sample_state)\<lparr>intron := [85, 78, 9, 9, 9, 9]\<rparr>\<rparr>)))
       = [85, 78, 0, 1, 2, 3]
   \<and> seen_intron (espif_reset id
        (sample_state\<lparr>esp_operating_mode := ESPIF_RUNNING_MODE, associated := True,
           seen_intron := True\<rparr>))"
  using espif_reset_effect [of sample_state id]
    espif_reset_effect [of "sample_state\<lparr>esp_operating_mode := ESPIF_RUNNING_MODE,
      associated := True, seen_intron := True\<rparr>" id]
    espif_reset_effect [of "sample_state\<lparr>esp_operating_mode := ESPIF_RUNNING_MODE, associated := True,
           seen_intron := True,
           tx_message := (tx_message sample_state)\<lparr>intron := [85, 78, 9, 9, 9, 9]\<rparr>\<rparr>" id]
  by (simp add: espif_reset_def reset_intron_def force_down_def hard_reset_device_def
      process_link_change_def Let_def sample_state_def power_on_def upt_rec)

text \<open>
  C4 as stated fails: in the uninitialised mode the reset leaves the mode as it is, and in the
  running mode it leaves both \<open>seen_intron\<close> and \<open>seen_rx_packet\<close> set.
\<close>

theorem espif_reset_counterexample:
  "esp_operating_mode (espif_reset id sample_state) \<noteq> ESPIF_WAIT_INIT
   \<and> seen_intron (espif_reset id
        (sample_state\<lparr>esp_operating_mode := ESPIF_RUNNING_MODE, seen_intron := True,
           seen_rx_packet := True\<rparr>))
   \<and> seen_rx_packet (espif_reset id
        (sample_state\<lparr>esp_operating_mode := ESPIF_RUNNING_MODE, seen_intron := True,
           seen_rx_packet := True\<rparr>))"
  by (simp add: espif_reset_def reset_intron_def force_down_def hard_reset_device_def
      process_link_change_def Let_def sample_state_def power_on_def)

subsection \<open>Received messages with a bad checksum\<close>

text \<open>The two scan handlers do nothing when the checksum is not valid.\<close>

lemma process_scan_ap_count_bad_checksum: "process_scan_ap_count False c s = s"
  by (simp add: process_scan_ap_count_def validate_checksum_def)

lemma process_scan_ap_info_bad_checksum: "process_scan_ap_info False i info s = s"
  by (simp add: process_scan_ap_info_def validate_checksum_def)

text \<open>
  C1 fails on the code for the device-info message. With \<open>checksum_valid\<close> false, in mode
  \<open>ESPIF_WAIT_INIT\<close> and with the required version, \<open>process_esp_device_info\<close> still copies
  the six bytes into the interface's hardware address, moves the mode to \<open>ESPIF_NEED_AP\<close>
  and sets \<open>esp_was_ok\<close>.
\<close>

theorem process_esp_device_info_bad_checksum:
  "esp_operating_mode (process_esp_device_info sample_externs False 14 [2, 4, 6, 8, 10, 12]
      (sample_state\<lparr>esp_operating_mode := ESPIF_WAIT_INIT\<rparr>)) = ESPIF_NEED_AP
   \<and> netif_hwaddr (process_esp_device_info sample_externs False 14 [2, 4, 6, 8, 10, 12]
      (sample_state\<lparr>esp_operating_mode := ESPIF_WAIT_INIT\<rparr>)) = [2, 4, 6, 8, 10, 12]
   \<and> netif_hwaddr_len (process_esp_device_info sample_externs False 14 [2, 4, 6, 8, 10, 12]
      (sample_state\<lparr>esp_operating_mode := ESPIF_WAIT_INIT\<rparr>)) = 6
   \<and> esp_was_ok (process_esp_device_info sample_externs False 14 [2, 4, 6, 8, 10, 12]
      (sample_state\<lparr>esp_operating_mode := ESPIF_WAIT_INIT\<rparr>))
   \<and> esp_operating_mode (sample_state\<lparr>esp_operating_mode := ESPIF_WAIT_INIT\<rparr>) = ESPIF_WAIT_INIT
   \<and> netif_hwaddr (sample_state\<lparr>esp_operating_mode := ESPIF_WAIT_INIT\<rparr>) = []"
  by (simp add: process_esp_device_info_def validate_checksum_def sample_externs_def
      sample_state_def power_on_def Let_def)

subsection \<open>Client configuration\<close>

lemma espif_tx_raw_one_segment:
  "espif_tx_raw X t b [seg] s =
     (let m = (tx_message s)\<lparr>hdr_type := t, hdr_variable_byte := b,
                               hdr_size := of_nat (length seg)\<rparr>;
          m = m\<lparr>data_checksum := message_checksum X m [seg]\<rparr>;
          r1 = HAL_UART_Transmit_DMA (hal_script s);
          r2 = HAL_UART_Transmit_DMA (tl (hal_script s))
      in if r1 \<noteq> HAL_OK
         then (hal_err r1,
               s\<lparr>tx_message := m,
                 uart_tx_log := uart_tx_log s @ [(TxPrelude m, r1)],
                 hal_script := tl (hal_script s)\<rparr>)
         else (hal_err r2,
               s\<lparr>tx_message := m,
                 uart_tx_log := uart_tx_log s @ [(TxPrelude m, HAL_OK), (TxSegment seg, r2)],
                 hal_script := tl (tl (hal_script s))\<rparr>))"
  by (simp add: espif_tx_raw_def espif_tx_buffer_def tot_len_def Let_def)

lemma make_new_intron_length: "length (make_new_intron rand_u cur) = length cur"
  by (simp add: make_new_intron_def)

lemma make_new_intron_nth:
  "i < length cur \<Longrightarrow>
     make_new_intron rand_u cur ! i = (if i < 2 then cur ! i else ucast (rand_u (i - 2)))"
  by (simp add: make_new_intron_def)

lemma clientconfig_payload_short:
  "length ssid_str < 256 \<Longrightarrow> length pass_str < 256 \<Longrightarrow>
     clientconfig_payload n ssid_str pass_str =
       n @ [of_nat (length ssid_str)] @ ssid_str @ [of_nat (length pass_str)] @ pass_str"
  by (simp add: clientconfig_payload_def Let_def unat_of_nat)

text \<open>
  C5. \<open>espif_tx_msg_clientconfig_v2\<close> returns \<open>ERR_IF\<close> and changes nothing while a scan is
  running. It returns \<open>ERR_OK\<close> exactly when no scan is running, the buffer was allocated and
  the HAL accepted both the prelude and the payload. On every other result the intron is the
  one before the call. On \<open>ERR_OK\<close> the intron is the new one, and what was transmitted is
  a \<open>CLIENTCONFIG_V2\<close> prelude under the old intron followed by one payload segment.
  The new intron has the length of the current one, its first two bytes are the current
  intron's and each further byte is the low byte of one call of the random generator. The
  payload is the new intron, the length byte and bytes of the SSID, the length byte and bytes
  of the password (for strings shorter than 256 bytes).
\<close>

theorem clientconfig_commits_on_success:
  "espif_tx_msg_clientconfig_v2 X rand_u pbuf_alloc_ok ssid_str pass_str s = (err, s') \<Longrightarrow>
     (scan_is_running s \<longrightarrow> err = ERR_IF \<and> s' = s)
     \<and> (err = ERR_OK \<longleftrightarrow>
          \<not> scan_is_running s \<and> pbuf_alloc_ok
          \<and> HAL_UART_Transmit_DMA (hal_script s) = HAL_OK
          \<and> HAL_UART_Transmit_DMA (tl (hal_script s)) = HAL_OK)
     \<and> (err \<noteq> ERR_OK \<longrightarrow> intron (tx_message s') = intron (tx_message s))
     \<and> (err = ERR_OK \<longrightarrow>
          intron (tx_message s') = make_new_intron rand_u (intron (tx_message s))
          \<and> (\<exists>m. hdr_type m = CLIENTCONFIG_V2 \<and> intron m = intron (tx_message s)
                 \<and> uart_tx_log s' = uart_tx_log s @
                      [(TxPrelude m, HAL_OK),
                       (TxSegment (clientconfig_payload
                           (make_new_intron rand_u (intron (tx_message s))) ssid_str pass_str),
                        HAL_OK)]))
     \<and> length (make_new_intron rand_u (intron (tx_message s))) = length (intron (tx_message s))
     \<and> (\<forall>i < length (intron (tx_message s)).
           make_new_intron rand_u (intron (tx_message s)) ! i =
             (if i < 2 then intron (tx_message s) ! i else ucast (rand_u (i - 2))))
     \<and> (length ssid_str < 256 \<and> length pass_str < 256 \<longrightarrow>
           clientconfig_payload (make_new_intron rand_u (intron (tx_message s))) ssid_str pass_str =
             make_new_intron rand_u (intron (tx_message s)) @ [of_nat (length ssid_str)] @ ssid_str
               @ [of_nat (length pass_str)] @ pass_str)"
proof -
  assume a: "espif_tx_msg_clientconfig_v2 X rand_u pbuf_alloc_ok ssid_str pass_str s = (err, s')"
  have 1: "scan_is_running s \<longrightarrow> err = ERR_IF \<and> s' = s"
    using a by (auto simp: espif_tx_msg_clientconfig_v2_def)
  have 2: "err = ERR_OK \<longleftrightarrow>
          \<not> scan_is_running s \<and> pbuf_alloc_ok
          \<and> HAL_UART_Transmit_DMA (hal_script s) = HAL_OK
          \<and> HAL_UART_Transmit_DMA (tl (hal_script s)) = HAL_OK"
    using a
    by (auto simp: espif_tx_msg_clientconfig_v2_def espif_tx_raw_one_segment Let_def
          hal_err_ok ERR_OK_def ERR_IF_def ERR_MEM_def split: if_splits)
  have 3: "err \<noteq> ERR_OK \<longrightarrow> intron (tx_message s') = intron (tx_message s)"
    using a
    by (auto simp: espif_tx_msg_clientconfig_v2_def espif_tx_raw_one_segment Let_def
          hal_err_ok ERR_OK_def split: if_splits)
  have 4: "err = ERR_OK \<longrightarrow>
          intron (tx_message s') = make_new_intron rand_u (intron (tx_message s))
          \<and> (\<exists>m. hdr_type m = CLIENTCONFIG_V2 \<and> intron m = intron (tx_message s)
                 \<and> uart_tx_log s' = uart_tx_log s @
                      [(TxPrelude m, HAL_OK),
                       (TxSegment (clientconfig_payload
                           (make_new_intron rand_u (intron (tx_message s))) ssid_str pass_str),
                        HAL_OK)])"
    using a
    by (auto simp: espif_tx_msg_clientconfig_v2_def espif_tx_raw_one_segment Let_def
          hal_err_ok ERR_OK_def ERR_IF_def ERR_MEM_def split: if_splits)
  show ?thesis
    using 1 2 3 4 make_new_intron_length make_new_intron_nth clientconfig_payload_short
    by blast
qed

theorem clientconfig_commits_on_success_witness:
  "fst (espif_tx_msg_clientconfig_v2 sample_externs sample_rand_u True [110, 101, 116] [112, 119]
          sample_state) = ERR_OK
   \<and> intron (tx_message (snd (espif_tx_msg_clientconfig_v2 sample_externs sample_rand_u True
          [110, 101, 116] [112, 119] sample_state))) = [85, 78, 0, 17, 34, 51]
   \<and> map fst (uart_tx_log (snd (espif_tx_msg_clientconfig_v2 sample_externs sample_rand_u True
          [110, 101, 116] [112, 119] sample_state)))
       = [TxPrelude \<lparr>intron = [85, 78, 0, 1, 2, 3], hdr_type = CLIENTCONFIG_V2,
                     hdr_variable_byte = 0, hdr_size = 13, data_checksum = 23\<rparr>,
          TxSegment [85, 78, 0, 17, 34, 51, 3, 110, 101, 116, 2, 112, 119]]
   \<and> fst (espif_tx_msg_clientconfig_v2 sample_externs sample_rand_u True [110, 101, 116] [112, 119]
          (sample_state\<lparr>hal_script := [HAL_OK, HAL_ERROR]\<rparr>)) = 1
   \<and> intron (tx_message (snd (espif_tx_msg_clientconfig_v2 sample_externs sample_rand_u True
          [110, 101, 116] [112, 119] (sample_state\<lparr>hal_script := [HAL_OK, HAL_ERROR]\<rparr>))))
       = [85, 78, 0, 1, 2, 3]
   \<and> espif_tx_msg_clientconfig_v2 sample_externs sample_rand_u True [110, 101, 116] [112, 119]
          (sample_state\<lparr>scan_is_running := True\<rparr>)
       = (ERR_IF, sample_state\<lparr>scan_is_running := True\<rparr>)"
  using
    clientconfig_commits_on_success [of sample_externs sample_rand_u True "[110, 101, 116]"
      "[112, 119]" sample_state
      "fst (espif_tx_msg_clientconfig_v2 sample_externs sample_rand_u True [110, 101, 116]
              [112, 119] sample_state)"
      "snd (espif_tx_msg_clientconfig_v2 sample_externs sample_rand_u True [110, 101, 116]
              [112, 119] sample_state)"]
    clientconfig_commits_on_success [of sample_externs sample_rand_u True "[110, 101, 116]"
      "[112, 119]" "sample_state\<lparr>hal_script := [HAL_OK, HAL_ERROR]\<rparr>"
      "fst (espif_tx_msg_clientconfig_v2 sample_externs sample_rand_u True [110, 101, 116]
              [112, 119] (sample_state\<lparr>hal_script := [HAL_OK, HAL_ERROR]\<rparr>))"
      "snd (espif_tx_msg_clientconfig_v2 sample_externs sample_rand_u True [110, 101, 116]
              [112, 119] (sample_state\<lparr>hal_script := [HAL_OK, HAL_ERROR]\<rparr>))"]
    clientconfig_commits_on_success [of sample_externs sample_rand_u True "[110, 101, 116]"
      "[112, 119]" "sample_state\<lparr>scan_is_running := True\<rparr>"
      "fst (espif_tx_msg_clientconfig_v2 sample_externs sample_rand_u True [110, 101, 116]
              [112, 119] (sample_state\<lparr>scan_is_running := True\<rparr>))"
      "snd (espif_tx_msg_clientconfig_v2 sample_externs sample_rand_u True [110, 101, 116]
              [112, 119] (sample_state\<lparr>scan_is_running := True\<rparr>))"]
  by (simp add: espif_tx_msg_clientconfig_v2_def espif_tx_raw_one_segment Let_def
      make_new_intron_def clientconfig_payload_def message_checksum_def header_bytes_def
      sample_externs_def sample_rand_u_def sample_state_def power_on_def
      HAL_UART_Transmit_DMA_def ERR_OK_def ERR_IF_def upt_rec)

subsection \<open>Asking for one access point\<close>

text \<open>The retry loop hands at most \<open>tries + 1\<close> requests to the HAL.\<close>

lemma requests_sent_after_tx:
  "requests_sent t' (snd (espif_tx_raw X t b [] s)) =
     requests_sent t' s + (if t = t' then 1 else 0)"
  by (simp add: espif_tx_raw_no_payload requests_sent_def Let_def)

lemma try_receive_log: "uart_tx_log (snd (try_receive s)) = uart_tx_log s"
  by (simp add: try_receive_def split: option.splits list.splits)

lemma requests_sent_try_receive:
  "requests_sent t (snd (try_receive s)) = requests_sent t s"
  by (simp add: requests_sent_def try_receive_log)

lemma get_ap_info_loop_sent_le:
  "requests_sent SCAN_AP_GET (snd (get_ap_info_loop X tries last_error index s))
     \<le> requests_sent SCAN_AP_GET s + nat (tries + 1)"
proof (induction X tries last_error index s rule: get_ap_info_loop.induct)
  case (1 X tries last_error index s)
  show ?case
  proof (cases "tries \<ge> 0")
    case False
    then show ?thesis by (subst get_ap_info_loop.simps) simp
  next
    case True
    obtain err s1 where tx: "espif_tx_raw X SCAN_AP_GET index [] s = (err, s1)"
      by (cases "espif_tx_raw X SCAN_AP_GET index [] s")
    have sent1: "requests_sent SCAN_AP_GET s1 = requests_sent SCAN_AP_GET s + 1"
      using requests_sent_after_tx [of SCAN_AP_GET X SCAN_AP_GET index s] tx by simp
    have n: "nat (tries + 1) = nat (tries - 1 + 1) + 1" using True by simp
    show ?thesis
    proof (cases "err \<noteq> ERR_OK")
      case e: True
      have "requests_sent SCAN_AP_GET (snd (get_ap_info_loop X (tries - 1) err index s1))
              \<le> requests_sent SCAN_AP_GET s1 + nat (tries - 1 + 1)"
        using "1.IH"(1) [OF True tx [symmetric] e] .
      then show ?thesis
        using True tx e sent1 n by (subst get_ap_info_loop.simps) simp
    next
      case e: False
      obtain got s2 where rx: "try_receive s1 = (got, s2)" by (cases "try_receive s1")
      have sent2: "requests_sent SCAN_AP_GET s2 = requests_sent SCAN_AP_GET s1"
        using requests_sent_try_receive [of SCAN_AP_GET s1] rx by simp
      show ?thesis
      proof (cases got)
        case None
        have "requests_sent SCAN_AP_GET (snd (get_ap_info_loop X (tries - 1) ERR_IF index s2))
                \<le> requests_sent SCAN_AP_GET s2 + nat (tries - 1 + 1)"
          using "1.IH"(2) [OF True tx [symmetric] e rx [symmetric] None] .
        then show ?thesis
          using True tx e rx None sent1 sent2 n by (subst get_ap_info_loop.simps) simp
      next
        case (Some info)
        then show ?thesis
          using True tx e rx sent1 sent2 by (subst get_ap_info_loop.simps) simp
      qed
    qed
  qed
qed

text \<open>When nothing ever answers, it hands exactly \<open>tries + 1\<close> requests and returns \<open>ERR_IF\<close>.\<close>

lemma get_ap_info_loop_silent:
  "silent s \<Longrightarrow>
     fst (get_ap_info_loop X tries last_error index s)
       = (if tries \<ge> 0 then ERR_IF else last_error, None)
     \<and> requests_sent SCAN_AP_GET (snd (get_ap_info_loop X tries last_error index s))
       = requests_sent SCAN_AP_GET s + nat (tries + 1)"
proof (induction X tries last_error index s rule: get_ap_info_loop.induct)
  case (1 X tries last_error index s)
  show ?case
  proof (cases "tries \<ge> 0")
    case False
    then show ?thesis by (subst (1 2) get_ap_info_loop.simps) simp
  next
    case True
    obtain err s1 where tx: "espif_tx_raw X SCAN_AP_GET index [] s = (err, s1)"
      by (cases "espif_tx_raw X SCAN_AP_GET index [] s")
    have e: "\<not> err \<noteq> ERR_OK" and q1: "silent s1"
      using tx "1.prems"
      by (auto simp: espif_tx_raw_no_payload Let_def silent_def HAL_UART_Transmit_DMA_def
            ERR_OK_def)
    have sent1: "requests_sent SCAN_AP_GET s1 = requests_sent SCAN_AP_GET s + 1"
      using requests_sent_after_tx [of SCAN_AP_GET X SCAN_AP_GET index s] tx by simp
    have rx: "try_receive s1 = (None, s1)"
      using q1 by (simp add: try_receive_def silent_def)
    have n: "nat (tries + 1) = nat (tries - 1 + 1) + 1" using True by simp
    have ih: "fst (get_ap_info_loop X (tries - 1) ERR_IF index s1)
                = (if tries - 1 \<ge> 0 then ERR_IF else ERR_IF, None)
              \<and> requests_sent SCAN_AP_GET (snd (get_ap_info_loop X (tries - 1) ERR_IF index s1))
                = requests_sent SCAN_AP_GET s1 + nat (tries - 1 + 1)"
      using "1.IH"(2) [OF True tx [symmetric] e rx [symmetric] refl q1] .
    show ?thesis
      using True tx e rx ih sent1 n by (subst (1 2) get_ap_info_loop.simps) simp
  qed
qed

text \<open>
  C2 fails on the code in its bound. With one access point known, a HAL that accepts every
  transfer and no reply within any timeout, \<open>get_ap_info\<close> for index 0 returns \<open>ERR_IF\<close>
  after handing five \<open>SCAN_AP_GET\<close> requests to the HAL, not four: the counter starts at 4 and
  the loop runs while it is at least 0.
\<close>

theorem get_ap_info_five_requests:
  "map_option fst (get_ap_info sample_externs 0 (sample_state\<lparr>ap_count := 1\<rparr>))
     = Some (ERR_IF, None)
   \<and> map_option (requests_sent SCAN_AP_GET \<circ> snd)
       (get_ap_info sample_externs 0 (sample_state\<lparr>ap_count := 1\<rparr>)) = Some 5"
proof -
  have q: "silent (sample_state\<lparr>ap_count := 1, ap_index := 0\<rparr>)"
    by (simp add: silent_def sample_state_def power_on_def)
  have r: "requests_sent SCAN_AP_GET (sample_state\<lparr>ap_count := 1, ap_index := 0\<rparr>) = 0"
    by (simp add: requests_sent_def sample_state_def power_on_def)
  show ?thesis
    using get_ap_info_loop_silent [OF q, of sample_externs 4 ERR_OK 0] r
    by (simp add: get_ap_info_def sample_state_def power_on_def)
qed

subsection \<open>The completion-signal slot\<close>

lemma tx_inv_init: "tx_inv tx_init"
  by (simp add: tx_inv_def tx_paired_def tx_init_def)

lemma tx_inv_claim: "tx_inv c \<Longrightarrow> tx_pc c = Entry \<Longrightarrow> tx_inv (tx_claim c)"
  by (auto simp: tx_inv_def tx_paired_def tx_claim_def Let_def)

lemma tx_inv_transmit: "tx_inv c \<Longrightarrow> tx_pc c = Claimed \<Longrightarrow> tx_inv (tx_transmit hal_ok c)"
  by (auto simp: tx_inv_def tx_paired_def tx_transmit_def)

lemma tx_inv_acquire:
  "tx_inv c \<Longrightarrow> tx_pc c = Acquiring \<Longrightarrow> tx_semaphore c \<Longrightarrow> tx_inv (tx_acquire c)"
  by (auto simp: tx_inv_def tx_paired_def tx_acquire_def)

lemma tx_inv_withdraw: "tx_inv c \<Longrightarrow> tx_pc c = Withdrawing \<Longrightarrow> tx_inv (tx_withdraw c)"
  by (auto simp: tx_inv_def tx_paired_def tx_withdraw_def Let_def)

lemma tx_inv_callback: "tx_inv c \<Longrightarrow> tx_inv (espif_tx_callback c)"
  by (auto simp: tx_inv_def tx_paired_def espif_tx_callback_def)

lemma tx_inv_step: "tx_step c c' \<Longrightarrow> tx_inv c \<Longrightarrow> tx_inv c'"
  by (induction rule: tx_step.induct)
    (simp_all add: tx_inv_claim tx_inv_transmit tx_inv_acquire tx_inv_withdraw tx_inv_callback)

lemma tx_reachable_inv: "tx_reachable c \<Longrightarrow> tx_inv c"
  by (induction rule: tx_reachable.induct) (auto intro: tx_inv_init tx_inv_step)

text \<open>
  C3. In every state the channel can reach, with the interrupt's callback running between
  any two steps of the sending task: the claims made are the releases by the interrupt plus
  the releases by the task itself, plus one when the slot is claimed, so each claim is
  released exactly once; each claim is followed by exactly one call of the HAL and no call
  is made without one; the assertion that the slot was free has never failed; and the slot is
  free whenever the task is at the entry of \<open>espif_tx_buffer\<close>, so no transfer is started
  while a claim is outstanding.
\<close>

theorem tx_claims_paired:
  "tx_reachable c \<Longrightarrow>
     claims c = isr_releases c + own_releases c + (if tx_semaphore_active c then 1 else 0)
     \<and> claims c = dma_started c + (if tx_pc c = Claimed then 1 else 0)
     \<and> tx_pc c \<noteq> Assert_old_failed
     \<and> (tx_pc c = Entry \<longrightarrow> \<not> tx_semaphore_active c)"
  using tx_reachable_inv [of c] by (simp add: tx_inv_def tx_paired_def)

lemma sample_run_reachable:
  "tx_reachable (tx_claim (tx_acquire (espif_tx_callback (tx_transmit True (tx_claim tx_init)))))"
proof -
  have 1: "tx_reachable (tx_claim tx_init)"
    by (rule reach_step [OF reach_init step_claim]) (simp add: tx_init_def)
  have 2: "tx_reachable (tx_transmit True (tx_claim tx_init))"
    by (rule reach_step [OF 1 step_transmit]) (simp add: tx_init_def tx_claim_def)
  have 3: "tx_reachable (espif_tx_callback (tx_transmit True (tx_claim tx_init)))"
    by (rule reach_step [OF 2 step_interrupt])
  have 4: "tx_reachable (tx_acquire (espif_tx_callback (tx_transmit True (tx_claim tx_init))))"
    by (rule reach_step [OF 3 step_acquire])
      (simp_all add: tx_init_def tx_claim_def tx_transmit_def espif_tx_callback_def)
  show ?thesis
    by (rule reach_step [OF 4 step_claim])
      (simp add: tx_init_def tx_claim_def tx_transmit_def espif_tx_callback_def tx_acquire_def)
qed

lemma sample_fail_reachable:
  "tx_reachable (tx_withdraw (tx_transmit False (tx_claim tx_init)))"
proof -
  have 1: "tx_reachable (tx_claim tx_init)"
    by (rule reach_step [OF reach_init step_claim]) (simp add: tx_init_def)
  have 2: "tx_reachable (tx_transmit False (tx_claim tx_init))"
    by (rule reach_step [OF 1 step_transmit]) (simp add: tx_init_def tx_claim_def)
  show ?thesis
    by (rule reach_step [OF 2 step_withdraw]) (simp add: tx_init_def tx_claim_def tx_transmit_def)
qed

theorem tx_claims_paired_witness:
  "tx_reachable (tx_claim (tx_acquire (espif_tx_callback (tx_transmit True (tx_claim tx_init)))))
   \<and> claims (tx_claim (tx_acquire (espif_tx_callback (tx_transmit True (tx_claim tx_init))))) = 2
   \<and> isr_releases (tx_claim (tx_acquire (espif_tx_callback (tx_transmit True (tx_claim tx_init))))) = 1
   \<and> tx_semaphore_active (tx_claim (tx_acquire (espif_tx_callback (tx_transmit True (tx_claim tx_init)))))
   \<and> tx_reachable (tx_withdraw (tx_transmit False (tx_claim tx_init)))
   \<and> claims (tx_withdraw (tx_transmit False (tx_claim tx_init))) = 1
   \<and> own_releases (tx_withdraw (tx_transmit False (tx_claim tx_init))) = 1
   \<and> tx_pc (tx_withdraw (tx_transmit False (tx_claim tx_init))) = Entry
   \<and> tx_semaphore_active (tx_withdraw (tx_transmit False (tx_claim tx_init))) = False"
  using tx_claims_paired [OF sample_run_reachable] tx_claims_paired [OF sample_fail_reachable]
    sample_run_reachable sample_fail_reachable
  by (simp add: tx_init_def tx_claim_def tx_transmit_def espif_tx_callback_def tx_acquire_def
      tx_withdraw_def)

end
